theory Spec2Isabelle
  imports Main
begin

section \<open>Go error values\<close>

text \<open>
  The error values that \<^verbatim>\<open>index\<close> in \<^verbatim>\<open>pkg/cmd/repo_index.go\<close> handles:
  the sentinel \<^verbatim>\<open>fs.ErrNotExist\<close>, an error made by \<^verbatim>\<open>errors.New\<close>, a
  \<^verbatim>\<open>syscall.Errno\<close>, an \<^verbatim>\<open>*fs.PathError\<close> (operation, path, cause) and the
  \<^verbatim>\<open>*fmt.wrapError\<close> that \<^verbatim>\<open>fmt.Errorf\<close> builds for one \<^verbatim>\<open>%w\<close> verb (message, cause).
  A Go \<^verbatim>\<open>error\<close> that may be \<^verbatim>\<open>nil\<close> is an \<open>error option\<close>. Of the errno messages only
  those of \<^verbatim>\<open>ENOENT\<close> (2) and \<^verbatim>\<open>EACCES\<close> (13) are spelled out; no statement below
  depends on the message of an errno.
\<close>

datatype error =
    ErrNotExist
  | ErrorString string
  | Errno nat
  | PathError string string error
  | WrapError string error

fun Error :: "error \<Rightarrow> string" where
  "Error ErrNotExist = ''file does not exist''"
| "Error (ErrorString s) = s"
| "Error (Errno n) =
     (if n = 2 then ''no such file or directory''
      else if n = 13 then ''permission denied'' else ''errno'')"
| "Error (PathError opn p e) = opn @ '' '' @ p @ '': '' @ Error e"
| "Error (WrapError msg e) = msg"

fun Unwrap :: "error \<Rightarrow> error option" where
  "Unwrap (PathError opn p e) = Some e"
| "Unwrap (WrapError msg e) = Some e"
| "Unwrap e = None"

text \<open>\<^verbatim>\<open>errors.Is(err, target)\<close> for a non-nil \<^verbatim>\<open>err\<close>: walk the chain of causes; a link
  matches when it is the target or when its own \<^verbatim>\<open>Is\<close> method accepts the target
  (\<^verbatim>\<open>ENOENT\<close>, errno 2, accepts \<^verbatim>\<open>fs.ErrNotExist\<close>).\<close>

fun errors_Is :: "error \<Rightarrow> error \<Rightarrow> bool" where
  "errors_Is (PathError opn p e) t = (PathError opn p e = t \<or> errors_Is e t)"
| "errors_Is (WrapError msg e) t = (WrapError msg e = t \<or> errors_Is e t)"
| "errors_Is (Errno n) t = (Errno n = t \<or> (n = 2 \<and> t = ErrNotExist))"
| "errors_Is e t = (e = t)"

text \<open>\<^verbatim>\<open>fmt.Errorf(prefix + "%w", err)\<close>: the message is the prefix followed by the
  cause's message, and the cause stays reachable through \<^verbatim>\<open>Unwrap\<close>.\<close>

definition fmt_Errorf_w :: "string \<Rightarrow> error \<Rightarrow> error" where
  "fmt_Errorf_w prefix err = WrapError (prefix @ Error err) err"

section \<open>The catalog\<close>

text \<open>
  Modelled from the spec: the type \<^verbatim>\<open>repo.IndexFile\<close> and its entries are declared in
  package \<^verbatim>\<open>repo\<close>, which is not among the sources. The fields are those of the spec's
  data model (CatalogEntry and Catalog); timestamps are natural numbers.
\<close>

record CatalogEntry =
  name :: string
  version :: string
  createdAt :: nat
  removed :: bool
  digest :: string
  urls :: "string list"

record IndexFile =
  apiVersion :: string
  generatedAt :: nat
  entries :: "string \<rightharpoonup> CatalogEntry list"

text \<open>Modelled from the spec: \<^verbatim>\<open>repo.NewIndexFile\<close> is not among the sources; the spec
  has a catalog created empty. The format tag and the time of creation are parameters.\<close>

definition NewIndexFile :: "string \<Rightarrow> nat \<Rightarrow> IndexFile" where
  "NewIndexFile tag now = \<lparr>apiVersion = tag, generatedAt = now, entries = Map.empty\<rparr>"

text \<open>Modelled from the spec: the entry list of a name, empty for a name the catalog does not
  have, and whether the catalog has a (name, version).\<close>

definition versions_of :: "IndexFile \<Rightarrow> string \<Rightarrow> CatalogEntry list" where
  "versions_of c n = (case entries c n of None \<Rightarrow> [] | Some es \<Rightarrow> es)"

definition Has :: "IndexFile \<Rightarrow> string \<Rightarrow> string \<Rightarrow> bool" where
  "Has c n v = list_ex (\<lambda>e. version e = v) (versions_of c n)"

text \<open>
  Modelled from the spec: the method \<^verbatim>\<open>(*IndexFile).Merge\<close> is not among the sources.
  Section 4.3 of the spec: the result is the local catalog; an entry of the existing catalog
  whose (name, version) is absent from the local one is copied unchanged, after the local
  entries of that name; an entry whose (name, version) the local catalog has is discarded.
\<close>

definition Merge :: "IndexFile \<Rightarrow> IndexFile \<Rightarrow> IndexFile" where
  "Merge local existing =
     local\<lparr>entries := (\<lambda>n.
        let carried = filter (\<lambda>e. \<not> Has local n (version e)) (versions_of existing n)
        in if carried = [] then entries local n
           else Some (versions_of local n @ carried))\<rparr>"

section \<open>The collaborators of the command\<close>

text \<open>
  What \<^verbatim>\<open>index\<close> calls outside its own file: the standard library
  (\<^verbatim>\<open>filepath.Abs\<close>, \<^verbatim>\<open>filepath.Join\<close>, \<^verbatim>\<open>os.Stat\<close>, the clock) and package
  \<^verbatim>\<open>repo\<close> (\<^verbatim>\<open>IndexDirectory\<close>, \<^verbatim>\<open>LoadIndexFile\<close>, \<^verbatim>\<open>SortEntries\<close>, \<^verbatim>\<open>WriteFile\<close>,
  \<^verbatim>\<open>WriteJSONFile\<close>, the constant \<^verbatim>\<open>APIVersionV1\<close>). They are parameters: \<open>'w\<close> is the
  state of the world outside the process (file system, clock). A read takes the world; a
  write takes it and returns the world it leaves behind with its error, \<open>None\<close> for \<^verbatim>\<open>nil\<close>.
\<close>

record 'w env =
  filepath_Abs :: "string \<Rightarrow> 'w \<Rightarrow> error + string"
  filepath_Join :: "string \<Rightarrow> string \<Rightarrow> string"
  os_Stat :: "string \<Rightarrow> 'w \<Rightarrow> error option"
  time_Now :: "'w \<Rightarrow> nat"
  APIVersionV1 :: string
  IndexDirectory :: "string \<Rightarrow> string \<Rightarrow> 'w \<Rightarrow> error + IndexFile"
  LoadIndexFile :: "string \<Rightarrow> 'w \<Rightarrow> error + IndexFile"
  SortEntries :: "IndexFile \<Rightarrow> IndexFile"
  WriteFile :: "IndexFile \<Rightarrow> string \<Rightarrow> nat \<Rightarrow> 'w \<Rightarrow> error option \<times> 'w"
  WriteJSONFile :: "IndexFile \<Rightarrow> string \<Rightarrow> nat \<Rightarrow> 'w \<Rightarrow> error option \<times> 'w"

text \<open>The calls a run makes, in the order it makes them. A write call carries the catalog,
  the path and the error it returned.\<close>

datatype call =
    CallAbs string
  | CallIndexDirectory string string
  | CallStat string
  | CallNewIndexFile
  | CallLoadIndexFile string
  | CallMerge IndexFile IndexFile
  | CallSortEntries IndexFile
  | CallWriteFile IndexFile string "error option"
  | CallWriteJSONFile IndexFile string "error option"

section \<open>The command\<close>

record repoIndexOptions =
  o_dir :: string
  o_url :: string
  o_merge :: string
  o_json :: bool


text \<open>\<^verbatim>\<open>writeIndexFile\<close>: the mode \<^verbatim>\<open>0o644\<close> is 420.\<close>

definition writeIndexFile ::
  "'w env \<Rightarrow> IndexFile \<Rightarrow> string \<Rightarrow> bool \<Rightarrow> 'w \<Rightarrow> error option \<times> 'w \<times> call list" where
  "writeIndexFile env i out json w =
     (if json
      then (let (r, w') = WriteJSONFile env i out 420 w in (r, w', [CallWriteJSONFile i out r]))
      else (let (r, w') = WriteFile env i out 420 w in (r, w', [CallWriteFile i out r])))"

text \<open>The test of line 102: \<^verbatim>\<open>errors.Is(err, fs.ErrNotExist)\<close> on the error of
  \<^verbatim>\<open>os.Stat(mergeTo)\<close>; a \<^verbatim>\<open>nil\<close> error is no \<^verbatim>\<open>fs.ErrNotExist\<close>.\<close>

definition stat_not_exist :: "'w env \<Rightarrow> string \<Rightarrow> 'w \<Rightarrow> bool" where
  "stat_not_exist env p w =
     (case os_Stat env p w of None \<Rightarrow> False | Some err \<Rightarrow> errors_Is err ErrNotExist)"

text \<open>
  \<^verbatim>\<open>index\<close>: the result is the returned error, the world the run leaves behind and the calls
  it made. \<open>sort_and_write\<close> is lines 113 and 114, which every path that has not returned
  reaches with the catalog \<open>i\<close>, mutated by the merge or not.
\<close>

definition index ::
  "'w env \<Rightarrow> string \<Rightarrow> string \<Rightarrow> string \<Rightarrow> bool \<Rightarrow> 'w \<Rightarrow> error option \<times> 'w \<times> call list" where
  "index env dir url mergeTo json w =
     (let out = filepath_Join env dir ''index.yaml'';
          sort_and_write = (\<lambda>i w1 cs.
             let (r, w2, cw) = writeIndexFile env (SortEntries env i) out json w1
             in (r, w2, cs @ [CallSortEntries i] @ cw))
      in case IndexDirectory env dir url w of
           Inl err \<Rightarrow> (Some err, w, [CallIndexDirectory dir url])
         | Inr i \<Rightarrow>
             if mergeTo \<noteq> [] then
               (if stat_not_exist env mergeTo w then
                  (let i2 = NewIndexFile (APIVersionV1 env) (time_Now env w);
                       (r1, w1, cb) = writeIndexFile env i2 mergeTo json w
                   in sort_and_write (Merge i i2) w1
                        ([CallIndexDirectory dir url, CallStat mergeTo, CallNewIndexFile]
                         @ cb @ [CallMerge i i2]))
                else
                  (case LoadIndexFile env mergeTo w of
                     Inl err \<Rightarrow>
                       (Some (fmt_Errorf_w ''merge failed: '' err), w,
                        [CallIndexDirectory dir url, CallStat mergeTo, CallLoadIndexFile mergeTo])
                   | Inr i2 \<Rightarrow>
                       sort_and_write (Merge i i2) w
                         [CallIndexDirectory dir url, CallStat mergeTo,
                          CallLoadIndexFile mergeTo, CallMerge i i2]))
             else sort_and_write i w [CallIndexDirectory dir url])"

text \<open>\<^verbatim>\<open>run\<close>: the directory is made absolute first.\<close>

definition run :: "'w env \<Rightarrow> repoIndexOptions \<Rightarrow> 'w \<Rightarrow> error option \<times> 'w \<times> call list" where
  "run env opts w =
     (case filepath_Abs env (o_dir opts) w of
        Inl err \<Rightarrow> (Some err, w, [CallAbs (o_dir opts)])
      | Inr path \<Rightarrow>
          (let (r, w', cs) = index env path (o_url opts) (o_merge opts) (o_json opts) w
           in (r, w', CallAbs (o_dir opts) # cs)))"

section \<open>Reading the calls of a run\<close>

text \<open>The call that \<^verbatim>\<open>writeIndexFile\<close> makes for a flag, a catalog, a path and the error the
  writer returned; whether a call is a write; the path a write call names.\<close>

definition write_call :: "bool \<Rightarrow> IndexFile \<Rightarrow> string \<Rightarrow> error option \<Rightarrow> call" where
  "write_call json i p r = (if json then CallWriteJSONFile i p r else CallWriteFile i p r)"

text \<open>The writer the flag selects, applied: what \<^verbatim>\<open>writeIndexFile\<close> hands the catalog to.\<close>

abbreviation writer :: "'w env \<Rightarrow> bool \<Rightarrow> IndexFile \<Rightarrow> string \<Rightarrow> 'w \<Rightarrow> error option \<times> 'w" where
  "writer env json i p w \<equiv>
     (if json then WriteJSONFile env i p 420 w else WriteFile env i p 420 w)"

fun is_write :: "call \<Rightarrow> bool" where
  "is_write (CallWriteFile i p r) = True"
| "is_write (CallWriteJSONFile i p r) = True"
| "is_write c = False"

fun path_of :: "call \<Rightarrow> string option" where
  "path_of (CallWriteFile i p r) = Some p"
| "path_of (CallWriteJSONFile i p r) = Some p"
| "path_of c = None"

section \<open>A world to run the command in\<close>

text \<open>
  A small file system for the examples: a clock, what scanning each directory with each base
  URL yields, the catalog files by path (a file holds a catalog in one of the two encodings,
  \<open>True\<close> for JSON, or is corrupt) and the paths that cannot be written. Its
  \<^verbatim>\<open>SortEntries\<close> orders each entry list newest first, comparing version strings
  character by character.
\<close>

fun version_less :: "string \<Rightarrow> string \<Rightarrow> bool" where
  "version_less [] [] = False"
| "version_less [] (b # bs) = True"
| "version_less (a # as) [] = False"
| "version_less (a # as) (b # bs) =
     ((of_char a :: nat) < of_char b \<or> (a = b \<and> version_less as bs))"

fun insert_desc :: "CatalogEntry \<Rightarrow> CatalogEntry list \<Rightarrow> CatalogEntry list" where
  "insert_desc e [] = [e]"
| "insert_desc e (x # xs) =
     (if version_less (version e) (version x) then x # insert_desc e xs else e # x # xs)"

definition sort_desc :: "CatalogEntry list \<Rightarrow> CatalogEntry list" where
  "sort_desc es = foldr insert_desc es []"

datatype content = Encoded bool IndexFile | Corrupt

record disk =
  clock :: nat
  scans :: "string \<Rightarrow> string \<Rightarrow> error + IndexFile"
  files :: "string \<rightharpoonup> content"
  readonly :: "string list"

definition example_env :: "disk env" where
  "example_env = \<lparr>filepath_Abs = (\<lambda>p w. Inr p),
          filepath_Join = (\<lambda>a b. a @ ''/'' @ b),
          os_Stat = (\<lambda>p w. case files w p of
                        None \<Rightarrow> Some (PathError ''stat'' p (Errno 2))
                      | Some f \<Rightarrow> None),
          time_Now = clock,
          APIVersionV1 = ''v1'',
          IndexDirectory = (\<lambda>d u w. scans w d u),
          LoadIndexFile = (\<lambda>p w. case files w p of
                        None \<Rightarrow> Inl (PathError ''open'' p (Errno 2))
                      | Some Corrupt \<Rightarrow> Inl (ErrorString ''no API version specified'')
                      | Some (Encoded j c) \<Rightarrow> Inr c),
          SortEntries = (\<lambda>c. c\<lparr>entries := map_option sort_desc \<circ> entries c\<rparr>),
          WriteFile = (\<lambda>c p m w.
                        if p \<in> set (readonly w) then (Some (PathError ''open'' p (Errno 13)), w)
                        else (None, w\<lparr>files := (files w)(p \<mapsto> Encoded False c)\<rparr>)),
          WriteJSONFile = (\<lambda>c p m w.
                        if p \<in> set (readonly w) then (Some (PathError ''open'' p (Errno 13)), w)
                        else (None, w\<lparr>files := (files w)(p \<mapsto> Encoded True c)\<rparr>))\<rparr>"

definition foo_1_0_0_local :: CatalogEntry where
  "foo_1_0_0_local = \<lparr>name = ''foo'', version = ''1.0.0'', createdAt = 100, removed = False,
                       digest = ''B'', urls = [''foo-1.0.0.tgz'']\<rparr>"

definition foo_1_0_0_old :: CatalogEntry where
  "foo_1_0_0_old = \<lparr>name = ''foo'', version = ''1.0.0'', createdAt = 50, removed = False,
                     digest = ''A'', urls = [''foo-1.0.0.tgz'']\<rparr>"

definition foo_0_9_0_old :: CatalogEntry where
  "foo_0_9_0_old = \<lparr>name = ''foo'', version = ''0.9.0'', createdAt = 40, removed = False,
                     digest = ''C'', urls = [''foo-0.9.0.tgz'']\<rparr>"

definition local_catalog :: IndexFile where
  "local_catalog = \<lparr>apiVersion = ''v1'', generatedAt = 100,
                     entries = [''foo'' \<mapsto> [foo_1_0_0_local]]\<rparr>"

definition old_catalog :: IndexFile where
  "old_catalog = \<lparr>apiVersion = ''v1'', generatedAt = 50,
                   entries = [''foo'' \<mapsto> [foo_1_0_0_old, foo_0_9_0_old]]\<rparr>"

definition empty_catalog :: IndexFile where
  "empty_catalog = \<lparr>apiVersion = ''v1'', generatedAt = 7, entries = Map.empty\<rparr>"

definition example_disk :: disk where
  "example_disk =
     \<lparr>clock = 100,
      scans = (\<lambda>d u. if d = ''/charts'' \<or> d = ''/ro'' then Inr local_catalog
                      else Inl (PathError ''open'' d (Errno 2))),
      files = [''/old/index.yaml'' \<mapsto> Encoded False old_catalog,
               ''/empty/index.yaml'' \<mapsto> Encoded False empty_catalog,
               ''/bad/index.yaml'' \<mapsto> Corrupt],
      readonly = [''/ro/index.yaml'']\<rparr>"

section \<open>The paths through index\<close>

text \<open>One lemma for each of the five ways through \<^verbatim>\<open>index\<close>, giving the result and the
  calls, and a rule that splits any run into these five.\<close>

lemma is_write_write_call [simp]: "is_write (write_call json i p r)"
  by (simp add: write_call_def)

lemma writeIndexFile_calls:
  "writeIndexFile env i p json w = (r, w', cs) \<Longrightarrow> cs = [write_call json i p r]"
  by (auto simp: writeIndexFile_def write_call_def split: if_splits prod.splits)

lemma writeIndexFile_result:
  "writeIndexFile env i p json w = (r, w', cs) \<Longrightarrow>
   r = fst (writer env json i p w) \<and> w' = snd (writer env json i p w)"
  by (auto simp: writeIndexFile_def split: if_splits prod.splits)

lemma versions_of_Merge:
  "versions_of (Merge l x) n =
     versions_of l n @ filter (\<lambda>e. \<not> Has l n (version e)) (versions_of x n)"
  by (simp add: Merge_def versions_of_def Let_def)

lemma Merge_no_entries: "entries x = Map.empty \<Longrightarrow> Merge l x = l"
  by (simp add: Merge_def versions_of_def)

lemma Merge_NewIndexFile: "Merge l (NewIndexFile tag now) = l"
  by (simp add: Merge_no_entries NewIndexFile_def)

lemma index_scan_failed:
  "IndexDirectory env dir url w = Inl e \<Longrightarrow>
   index env dir url mergeTo json w = (Some e, w, [CallIndexDirectory dir url])"
  by (simp add: index_def)

lemma index_no_merge:
  assumes "IndexDirectory env dir url w = Inr i" and "mergeTo = []"
    and "writeIndexFile env (SortEntries env i) (filepath_Join env dir ''index.yaml'') json w = (r, w', cw)"
  shows "index env dir url mergeTo json w =
     (r, w', [CallIndexDirectory dir url, CallSortEntries i,
              write_call json (SortEntries env i) (filepath_Join env dir ''index.yaml'') r])"
  using assms writeIndexFile_calls [OF assms(3)] by (simp add: index_def)

lemma index_load_failed:
  assumes "IndexDirectory env dir url w = Inr i" and "mergeTo \<noteq> []"
    and "\<not> stat_not_exist env mergeTo w" and "LoadIndexFile env mergeTo w = Inl e"
  shows "index env dir url mergeTo json w =
     (Some (fmt_Errorf_w ''merge failed: '' e), w,
      [CallIndexDirectory dir url, CallStat mergeTo, CallLoadIndexFile mergeTo])"
  using assms by (simp add: index_def)

lemma index_loaded:
  assumes "IndexDirectory env dir url w = Inr i" and "mergeTo \<noteq> []"
    and "\<not> stat_not_exist env mergeTo w" and "LoadIndexFile env mergeTo w = Inr i2"
    and "writeIndexFile env (SortEntries env (Merge i i2)) (filepath_Join env dir ''index.yaml'') json w
           = (r, w', cw)"
  shows "index env dir url mergeTo json w =
     (r, w', [CallIndexDirectory dir url, CallStat mergeTo, CallLoadIndexFile mergeTo,
              CallMerge i i2, CallSortEntries (Merge i i2),
              write_call json (SortEntries env (Merge i i2)) (filepath_Join env dir ''index.yaml'') r])"
  using assms writeIndexFile_calls [OF assms(5)] by (simp add: index_def)

lemma index_bootstrapped:
  assumes "IndexDirectory env dir url w = Inr i" and "mergeTo \<noteq> []"
    and "stat_not_exist env mergeTo w"
    and "i2 = NewIndexFile (APIVersionV1 env) (time_Now env w)"
    and "writeIndexFile env i2 mergeTo json w = (r1, w1, cb)"
    and "writeIndexFile env (SortEntries env (Merge i i2)) (filepath_Join env dir ''index.yaml'') json w1
           = (r, w', cw)"
  shows "index env dir url mergeTo json w =
     (r, w', [CallIndexDirectory dir url, CallStat mergeTo, CallNewIndexFile,
              write_call json i2 mergeTo r1,
              CallMerge i i2, CallSortEntries (Merge i i2),
              write_call json (SortEntries env (Merge i i2)) (filepath_Join env dir ''index.yaml'') r])"
  using assms writeIndexFile_calls [OF assms(5)] writeIndexFile_calls [OF assms(6)]
  by (simp add: index_def Let_def)

lemma write_call_inject [simp]:
  "(write_call json a p r = write_call json b q s) = (a = b \<and> p = q \<and> r = s)"
  by (simp add: write_call_def)

lemma write_call_distinct [simp]:
  "write_call json a p r \<noteq> CallIndexDirectory d u"
  "write_call json a p r \<noteq> CallLoadIndexFile m"
  "write_call json a p r \<noteq> CallMerge x y"
  "write_call json a p r \<noteq> CallSortEntries x"
  by (simp_all add: write_call_def)

lemma path_of_write_call [simp]: "path_of (write_call json i p r) = Some p"
  by (simp add: write_call_def)

lemma writeIndexFile_writer:
  "writeIndexFile env i p json w = (r, w', cs) \<Longrightarrow>
   (r, w') = (if json then WriteJSONFile env i p 420 w else WriteFile env i p 420 w)"
  by (auto simp: writeIndexFile_def split: if_splits prod.splits)

lemma index_cases [consumes 1, case_names ScanFailed NoMerge LoadFailed Loaded Bootstrapped]:
  assumes "index env dir url mergeTo json w = (r, w', cs)"
  obtains
    (ScanFailed) e where
      "IndexDirectory env dir url w = Inl e" "r = Some e" "w' = w"
      "cs = [CallIndexDirectory dir url]"
  | (NoMerge) i cw where
      "IndexDirectory env dir url w = Inr i" "mergeTo = []"
      "writeIndexFile env (SortEntries env i) (filepath_Join env dir ''index.yaml'') json w
         = (r, w', cw)"
      "cs = [CallIndexDirectory dir url, CallSortEntries i,
             write_call json (SortEntries env i) (filepath_Join env dir ''index.yaml'') r]"
  | (LoadFailed) i e where
      "IndexDirectory env dir url w = Inr i" "mergeTo \<noteq> []"
      "\<not> stat_not_exist env mergeTo w" "LoadIndexFile env mergeTo w = Inl e"
      "r = Some (fmt_Errorf_w ''merge failed: '' e)" "w' = w"
      "cs = [CallIndexDirectory dir url, CallStat mergeTo, CallLoadIndexFile mergeTo]"
  | (Loaded) i i2 cw where
      "IndexDirectory env dir url w = Inr i" "mergeTo \<noteq> []"
      "\<not> stat_not_exist env mergeTo w" "LoadIndexFile env mergeTo w = Inr i2"
      "writeIndexFile env (SortEntries env (Merge i i2)) (filepath_Join env dir ''index.yaml'')
         json w = (r, w', cw)"
      "cs = [CallIndexDirectory dir url, CallStat mergeTo, CallLoadIndexFile mergeTo,
             CallMerge i i2, CallSortEntries (Merge i i2),
             write_call json (SortEntries env (Merge i i2))
               (filepath_Join env dir ''index.yaml'') r]"
  | (Bootstrapped) i i2 r1 w1 cb cw where
      "IndexDirectory env dir url w = Inr i" "mergeTo \<noteq> []"
      "stat_not_exist env mergeTo w"
      "i2 = NewIndexFile (APIVersionV1 env) (time_Now env w)"
      "writeIndexFile env i2 mergeTo json w = (r1, w1, cb)"
      "writeIndexFile env (SortEntries env (Merge i i2)) (filepath_Join env dir ''index.yaml'')
         json w1 = (r, w', cw)"
      "cs = [CallIndexDirectory dir url, CallStat mergeTo, CallNewIndexFile,
             write_call json i2 mergeTo r1, CallMerge i i2, CallSortEntries (Merge i i2),
             write_call json (SortEntries env (Merge i i2))
               (filepath_Join env dir ''index.yaml'') r]"
proof (cases "IndexDirectory env dir url w")
  case (Inl e)
  with assms index_scan_failed [OF Inl, of mergeTo json] show thesis
    by (intro ScanFailed [of e]) simp_all
next
  case (Inr i)
  let ?out = "filepath_Join env dir ''index.yaml''"
  show thesis
  proof (cases "mergeTo = []")
    case True
    obtain r0 w0 c0 where wr: "writeIndexFile env (SortEntries env i) ?out json w = (r0, w0, c0)"
      using prod_cases3 by blast
    from index_no_merge [OF Inr True wr] assms have "r = r0" "w' = w0"
      "cs = [CallIndexDirectory dir url, CallSortEntries i, write_call json (SortEntries env i) ?out r]"
      by simp_all
    with Inr True wr show thesis by (intro NoMerge [of i c0]) simp_all
  next
    case False
    show thesis
    proof (cases "stat_not_exist env mergeTo w")
      case True
      define i2 where "i2 = NewIndexFile (APIVersionV1 env) (time_Now env w)"
      obtain r1 w1 cb where wb: "writeIndexFile env i2 mergeTo json w = (r1, w1, cb)"
        using prod_cases3 by blast
      obtain r0 w0 c0 where
        wr: "writeIndexFile env (SortEntries env (Merge i i2)) ?out json w1 = (r0, w0, c0)"
        using prod_cases3 by blast
      from index_bootstrapped [OF Inr False True i2_def wb wr] assms
      have "r = r0" "w' = w0"
        "cs = [CallIndexDirectory dir url, CallStat mergeTo, CallNewIndexFile,
               write_call json i2 mergeTo r1, CallMerge i i2, CallSortEntries (Merge i i2),
               write_call json (SortEntries env (Merge i i2)) ?out r]"
        by simp_all
      with Inr False True i2_def wb wr show thesis
        by (intro Bootstrapped [of i i2 r1 w1 cb c0]) simp_all
    next
      case notmissing: False
      show thesis
      proof (cases "LoadIndexFile env mergeTo w")
        case (Inl e)
        from index_load_failed [OF Inr False notmissing Inl, of json] assms
        show thesis using Inr False notmissing Inl by (intro LoadFailed [of i e]) simp_all
      next
        case load: (Inr i2)
        obtain r0 w0 c0 where
          wr: "writeIndexFile env (SortEntries env (Merge i i2)) ?out json w = (r0, w0, c0)"
          using prod_cases3 by blast
        from index_loaded [OF Inr False notmissing load wr] assms
        have "r = r0" "w' = w0"
          "cs = [CallIndexDirectory dir url, CallStat mergeTo, CallLoadIndexFile mergeTo,
                 CallMerge i i2, CallSortEntries (Merge i i2),
                 write_call json (SortEntries env (Merge i i2)) ?out r]"
          by simp_all
        with Inr False notmissing load wr show thesis
          by (intro Loaded [of i i2 c0]) simp_all
      qed
    qed
  qed
qed

lemma Merge_keeps_local: "set (versions_of l n) \<subseteq> set (versions_of (Merge l x) n)"
  by (simp add: versions_of_Merge)

lemma Merge_local_wins:
  "e \<in> set (versions_of (Merge l x) n) \<Longrightarrow> Has l n (version e) \<Longrightarrow> e \<in> set (versions_of l n)"
  by (auto simp: versions_of_Merge)

lemma Merge_carries:
  "e \<in> set (versions_of x n) \<Longrightarrow> \<not> Has l n (version e) \<Longrightarrow> e \<in> set (versions_of (Merge l x) n)"
  by (simp add: versions_of_Merge)

section \<open>Example runs\<close>

text \<open>The command run on the example disk, once for each way through \<^verbatim>\<open>index\<close>: the
  returned error, the disk afterwards and the calls.\<close>

lemma example_env_simps:
  "filepath_Abs example_env p w = Inr p"
  "filepath_Join example_env a b = a @ ''/'' @ b"
  "os_Stat example_env p w =
     (case files w p of None \<Rightarrow> Some (PathError ''stat'' p (Errno 2)) | Some f \<Rightarrow> None)"
  "time_Now example_env w = clock w"
  "APIVersionV1 example_env = ''v1''"
  "IndexDirectory example_env d u w = scans w d u"
  "LoadIndexFile example_env p w =
     (case files w p of
        None \<Rightarrow> Inl (PathError ''open'' p (Errno 2))
      | Some Corrupt \<Rightarrow> Inl (ErrorString ''no API version specified'')
      | Some (Encoded j c) \<Rightarrow> Inr c)"
  "WriteFile example_env c p m w =
     (if p \<in> set (readonly w) then (Some (PathError ''open'' p (Errno 13)), w)
      else (None, w\<lparr>files := (files w)(p \<mapsto> Encoded False c)\<rparr>))"
  "WriteJSONFile example_env c p m w =
     (if p \<in> set (readonly w) then (Some (PathError ''open'' p (Errno 13)), w)
      else (None, w\<lparr>files := (files w)(p \<mapsto> Encoded True c)\<rparr>))"
  by (simp_all add: example_env_def)

lemma example_disk_simps:
  "clock example_disk = 100"
  "scans example_disk d u =
     (if d = ''/charts'' \<or> d = ''/ro'' then Inr local_catalog
      else Inl (PathError ''open'' d (Errno 2)))"
  "files example_disk =
     [''/old/index.yaml'' \<mapsto> Encoded False old_catalog,
      ''/empty/index.yaml'' \<mapsto> Encoded False empty_catalog,
      ''/bad/index.yaml'' \<mapsto> Corrupt]"
  "readonly example_disk = [''/ro/index.yaml'']"
  by (simp_all add: example_disk_def)

lemma example_run_plain:
  "index example_env ''/charts'' [] [] False example_disk =
     (None,
      example_disk\<lparr>files := (files example_disk)
         (''/charts/index.yaml'' \<mapsto> Encoded False (SortEntries example_env local_catalog))\<rparr>,
      [CallIndexDirectory ''/charts'' [], CallSortEntries local_catalog,
       CallWriteFile (SortEntries example_env local_catalog) ''/charts/index.yaml'' None])"
  by (simp add: Let_def index_def writeIndexFile_def example_env_simps example_disk_simps)

lemma example_run_scan_failed:
  "index example_env ''/nowhere'' [] ''/old/index.yaml'' False example_disk =
     (Some (PathError ''open'' ''/nowhere'' (Errno 2)), example_disk,
      [CallIndexDirectory ''/nowhere'' []])"
  by (simp add: Let_def index_def example_env_simps example_disk_simps)

lemma example_run_write_failed:
  "index example_env ''/ro'' [] [] False example_disk =
     (Some (PathError ''open'' ''/ro/index.yaml'' (Errno 13)), example_disk,
      [CallIndexDirectory ''/ro'' [], CallSortEntries local_catalog,
       CallWriteFile (SortEntries example_env local_catalog) ''/ro/index.yaml''
         (Some (PathError ''open'' ''/ro/index.yaml'' (Errno 13)))])"
  by (simp add: Let_def index_def writeIndexFile_def example_env_simps example_disk_simps)

lemma example_run_load_failed:
  "index example_env ''/charts'' [] ''/bad/index.yaml'' False example_disk =
     (Some (WrapError ''merge failed: no API version specified''
              (ErrorString ''no API version specified'')), example_disk,
      [CallIndexDirectory ''/charts'' [], CallStat ''/bad/index.yaml'',
       CallLoadIndexFile ''/bad/index.yaml''])"
  by (simp add: Let_def index_def stat_not_exist_def fmt_Errorf_w_def example_env_simps
        example_disk_simps)

lemma example_run_loaded:
  "index example_env ''/charts'' [] ''/old/index.yaml'' True example_disk =
     (None,
      example_disk\<lparr>files := (files example_disk)
         (''/charts/index.yaml'' \<mapsto>
            Encoded True (SortEntries example_env (Merge local_catalog old_catalog)))\<rparr>,
      [CallIndexDirectory ''/charts'' [], CallStat ''/old/index.yaml'',
       CallLoadIndexFile ''/old/index.yaml'', CallMerge local_catalog old_catalog,
       CallSortEntries (Merge local_catalog old_catalog),
       CallWriteJSONFile (SortEntries example_env (Merge local_catalog old_catalog))
         ''/charts/index.yaml'' None])"
  by (simp add: Let_def index_def writeIndexFile_def stat_not_exist_def example_env_simps
        example_disk_simps)

lemma example_run_bootstrapped:
  "index example_env ''/charts'' [] ''/new/index.yaml'' False example_disk =
     (None,
      example_disk\<lparr>files := (files example_disk)
         (''/new/index.yaml'' \<mapsto> Encoded False (NewIndexFile ''v1'' 100),
          ''/charts/index.yaml'' \<mapsto>
            Encoded False
              (SortEntries example_env (Merge local_catalog (NewIndexFile ''v1'' 100))))\<rparr>,
      [CallIndexDirectory ''/charts'' [], CallStat ''/new/index.yaml'', CallNewIndexFile,
       CallWriteFile (NewIndexFile ''v1'' 100) ''/new/index.yaml'' None,
       CallMerge local_catalog (NewIndexFile ''v1'' 100),
       CallSortEntries (Merge local_catalog (NewIndexFile ''v1'' 100)),
       CallWriteFile (SortEntries example_env (Merge local_catalog (NewIndexFile ''v1'' 100)))
         ''/charts/index.yaml'' None])"
  by (simp add: Let_def index_def writeIndexFile_def stat_not_exist_def example_env_simps
        example_disk_simps)

lemma example_run_bootstrap_failed:
  "index example_env ''/charts'' [] ''/ro/index.yaml'' False example_disk =
     (None,
      example_disk\<lparr>files := (files example_disk)
         (''/charts/index.yaml'' \<mapsto>
            Encoded False
              (SortEntries example_env (Merge local_catalog (NewIndexFile ''v1'' 100))))\<rparr>,
      [CallIndexDirectory ''/charts'' [], CallStat ''/ro/index.yaml'', CallNewIndexFile,
       CallWriteFile (NewIndexFile ''v1'' 100) ''/ro/index.yaml''
         (Some (PathError ''open'' ''/ro/index.yaml'' (Errno 13))),
       CallMerge local_catalog (NewIndexFile ''v1'' 100),
       CallSortEntries (Merge local_catalog (NewIndexFile ''v1'' 100)),
       CallWriteFile (SortEntries example_env (Merge local_catalog (NewIndexFile ''v1'' 100)))
         ''/charts/index.yaml'' None])"
  by (simp add: Let_def index_def writeIndexFile_def stat_not_exist_def example_env_simps
        example_disk_simps)

text \<open>The catalog written by the run that merges into \<^verbatim>\<open>/old/index.yaml\<close>: the scanned
  \<open>foo 1.0.0\<close>, then the published \<open>foo 0.9.0\<close>.\<close>

lemma example_sorted_merged:
  "versions_of (SortEntries example_env (Merge local_catalog old_catalog)) ''foo''
     = [foo_1_0_0_local, foo_0_9_0_old]"
  by (simp add: example_env_def Merge_def versions_of_def Has_def sort_desc_def
        local_catalog_def old_catalog_def foo_1_0_0_local_def foo_1_0_0_old_def
        foo_0_9_0_old_def)

lemma example_run_loaded_empty:
  "index example_env ''/charts'' [] ''/empty/index.yaml'' False example_disk =
     (None,
      example_disk\<lparr>files := (files example_disk)
         (''/charts/index.yaml'' \<mapsto>
            Encoded False (SortEntries example_env (Merge local_catalog empty_catalog)))\<rparr>,
      [CallIndexDirectory ''/charts'' [], CallStat ''/empty/index.yaml'',
       CallLoadIndexFile ''/empty/index.yaml'', CallMerge local_catalog empty_catalog,
       CallSortEntries (Merge local_catalog empty_catalog),
       CallWriteFile (SortEntries example_env (Merge local_catalog empty_catalog))
         ''/charts/index.yaml'' None])"
  by (simp add: Let_def index_def writeIndexFile_def stat_not_exist_def example_env_simps
        example_disk_simps)

lemma example_run_bootstrapped_write_failed:
  "index example_env ''/ro'' [] ''/new/index.yaml'' False example_disk =
     (Some (PathError ''open'' ''/ro/index.yaml'' (Errno 13)),
      example_disk\<lparr>files := (files example_disk)
         (''/new/index.yaml'' \<mapsto> Encoded False (NewIndexFile ''v1'' 100))\<rparr>,
      [CallIndexDirectory ''/ro'' [], CallStat ''/new/index.yaml'', CallNewIndexFile,
       CallWriteFile (NewIndexFile ''v1'' 100) ''/new/index.yaml'' None,
       CallMerge local_catalog (NewIndexFile ''v1'' 100),
       CallSortEntries (Merge local_catalog (NewIndexFile ''v1'' 100)),
       CallWriteFile (SortEntries example_env (Merge local_catalog (NewIndexFile ''v1'' 100)))
         ''/ro/index.yaml'' (Some (PathError ''open'' ''/ro/index.yaml'' (Errno 13)))])"
  by (simp add: Let_def index_def writeIndexFile_def stat_not_exist_def example_env_simps
        example_disk_simps)

lemma example_run_bootstrapped_json:
  "index example_env ''/charts'' ''https://charts.example.com/'' ''/new/index.json'' True
     example_disk =
     (None,
      example_disk\<lparr>files := (files example_disk)
         (''/new/index.json'' \<mapsto> Encoded True (NewIndexFile ''v1'' 100),
          ''/charts/index.yaml'' \<mapsto>
            Encoded True
              (SortEntries example_env (Merge local_catalog (NewIndexFile ''v1'' 100))))\<rparr>,
      [CallIndexDirectory ''/charts'' ''https://charts.example.com/'',
       CallStat ''/new/index.json'', CallNewIndexFile,
       CallWriteJSONFile (NewIndexFile ''v1'' 100) ''/new/index.json'' None,
       CallMerge local_catalog (NewIndexFile ''v1'' 100),
       CallSortEntries (Merge local_catalog (NewIndexFile ''v1'' 100)),
       CallWriteJSONFile (SortEntries example_env (Merge local_catalog (NewIndexFile ''v1'' 100)))
         ''/charts/index.yaml'' None])"
  by (simp add: Let_def index_def writeIndexFile_def stat_not_exist_def example_env_simps
        example_disk_simps)

text \<open>\<^verbatim>\<open>run\<close> returns the error of \<^verbatim>\<open>filepath.Abs\<close> unchanged, and otherwise what
  \<^verbatim>\<open>index\<close> returns.\<close>

lemma run_abs_failed:
  "filepath_Abs env (o_dir opts) w = Inl e \<Longrightarrow>
   run env opts w = (Some e, w, [CallAbs (o_dir opts)])"
  by (simp add: run_def)

lemma run_returns_index:
  "filepath_Abs env (o_dir opts) w = Inr p \<Longrightarrow>
   fst (run env opts w) = fst (index env p (o_url opts) (o_merge opts) (o_json opts) w)"
  by (simp add: run_def split: prod.splits)

section \<open>The claims\<close>

text \<open>
  Claim C1. With a merge target given, a scan that built the catalog \<open>i\<close> and an existing
  catalog \<open>i2\<close>, loaded from the target or made empty because the target is missing,
  \<^verbatim>\<open>index\<close> calls \<open>Merge\<close> with \<open>i\<close> as the local and \<open>i2\<close> as the existing catalog, sorts
  the merged local catalog and hands it to the writer the flag selects, at the output path:
  the error and the world of the run are the ones that writer returns, in the world the run
  found or, after a bootstrap, in the world the bootstrap write left. The calls of the run
  are exactly those listed. The merged catalog keeps the local catalog's tag and timestamp
  and all its entries, and an entry of the merged catalog whose (name, version) the local
  catalog has is a local entry: on a collision the existing entry is dropped.
\<close>

theorem merge_local_authoritative:
  assumes "mergeTo \<noteq> []"
    and "IndexDirectory env dir url w = Inr i"
    and "(stat_not_exist env mergeTo w \<and> i2 = NewIndexFile (APIVersionV1 env) (time_Now env w))
         \<or> (\<not> stat_not_exist env mergeTo w \<and> LoadIndexFile env mergeTo w = Inr i2)"
    and "index env dir url mergeTo json w = (r, w', cs)"
  shows "(r, w') = writer env json (SortEntries env (Merge i i2))
                     (filepath_Join env dir ''index.yaml'')
                     (if stat_not_exist env mergeTo w
                      then snd (writer env json i2 mergeTo w) else w)
       \<and> cs = [CallIndexDirectory dir url, CallStat mergeTo]
              @ (if stat_not_exist env mergeTo w
                 then [CallNewIndexFile,
                       write_call json i2 mergeTo (fst (writer env json i2 mergeTo w))]
                 else [CallLoadIndexFile mergeTo])
              @ [CallMerge i i2, CallSortEntries (Merge i i2),
                 write_call json (SortEntries env (Merge i i2))
                   (filepath_Join env dir ''index.yaml'') r]
       \<and> apiVersion (Merge i i2) = apiVersion i
       \<and> generatedAt (Merge i i2) = generatedAt i
       \<and> (\<forall>n. set (versions_of i n) \<subseteq> set (versions_of (Merge i i2) n))
       \<and> (\<forall>n e. e \<in> set (versions_of (Merge i i2) n) \<and> Has i n (version e)
                 \<longrightarrow> e \<in> set (versions_of i n))"
proof -
  let ?out = "filepath_Join env dir ''index.yaml''"
  let ?w1 = "if stat_not_exist env mergeTo w then snd (writer env json i2 mergeTo w) else w"
  have run: "(r, w') = writer env json (SortEntries env (Merge i i2)) ?out ?w1
       \<and> cs = [CallIndexDirectory dir url, CallStat mergeTo]
              @ (if stat_not_exist env mergeTo w
                 then [CallNewIndexFile,
                       write_call json i2 mergeTo (fst (writer env json i2 mergeTo w))]
                 else [CallLoadIndexFile mergeTo])
              @ [CallMerge i i2, CallSortEntries (Merge i i2),
                 write_call json (SortEntries env (Merge i i2)) ?out r]"
    using assms(4)
  proof (cases rule: index_cases)
    case (Loaded j j2 cw)
    with assms(2,3) have eq: "j = i" "j2 = i2" by auto
    from writeIndexFile_result [OF Loaded(5)] Loaded(3,6) eq show ?thesis
      by (simp split: if_splits)
  next
    case (Bootstrapped j j2 r1 w1 cb cw)
    with assms(2,3) have eq: "j = i" "j2 = i2" by auto
    from writeIndexFile_result [OF Bootstrapped(5)] writeIndexFile_result [OF Bootstrapped(6)]
      Bootstrapped(3,7) eq show ?thesis
      by (simp split: if_splits)
  qed (use assms(1,2,3) in auto)
  have meta: "apiVersion (Merge i i2) = apiVersion i" "generatedAt (Merge i i2) = generatedAt i"
    by (simp_all add: Merge_def)
  from run meta Merge_keeps_local Merge_local_wins show ?thesis by blast
qed

text \<open>
  The run of the second scenario of the spec: the scanned \<open>foo 1.0.0\<close> has digest B, the
  published one digest A. The disk after the run holds the merged catalog at the output
  path, and the published entry is not in it.
\<close>

theorem merge_local_authoritative_witness:
  "''/old/index.yaml'' \<noteq> []
   \<and> IndexDirectory example_env ''/charts'' [] example_disk = Inr local_catalog
   \<and> \<not> stat_not_exist example_env ''/old/index.yaml'' example_disk
   \<and> LoadIndexFile example_env ''/old/index.yaml'' example_disk = Inr old_catalog
   \<and> WriteJSONFile example_env (SortEntries example_env (Merge local_catalog old_catalog))
        ''/charts/index.yaml'' 420 example_disk
      = (None,
         example_disk\<lparr>files := (files example_disk)
           (''/charts/index.yaml'' \<mapsto>
              Encoded True (SortEntries example_env (Merge local_catalog old_catalog)))\<rparr>)
   \<and> index example_env ''/charts'' [] ''/old/index.yaml'' True example_disk =
       (None,
        example_disk\<lparr>files := (files example_disk)
          (''/charts/index.yaml'' \<mapsto>
             Encoded True (SortEntries example_env (Merge local_catalog old_catalog)))\<rparr>,
        [CallIndexDirectory ''/charts'' [], CallStat ''/old/index.yaml'',
         CallLoadIndexFile ''/old/index.yaml'', CallMerge local_catalog old_catalog,
         CallSortEntries (Merge local_catalog old_catalog),
         CallWriteJSONFile (SortEntries example_env (Merge local_catalog old_catalog))
           ''/charts/index.yaml'' None])
   \<and> Has local_catalog ''foo'' (version foo_1_0_0_old)
   \<and> foo_1_0_0_old \<notin> set (versions_of (Merge local_catalog old_catalog) ''foo'')
   \<and> foo_1_0_0_local \<in> set (versions_of (Merge local_catalog old_catalog) ''foo'')"
proof -
  have h1: "''/old/index.yaml'' \<noteq> []" by simp
  have h2: "IndexDirectory example_env ''/charts'' [] example_disk = Inr local_catalog"
    by (simp add: example_env_simps example_disk_simps)
  have h3: "\<not> stat_not_exist example_env ''/old/index.yaml'' example_disk"
    by (simp add: stat_not_exist_def example_env_simps example_disk_simps)
  have h4: "LoadIndexFile example_env ''/old/index.yaml'' example_disk = Inr old_catalog"
    by (simp add: example_env_simps example_disk_simps)
  have h5: "Has local_catalog ''foo'' (version foo_1_0_0_old)"
    by (simp add: Has_def versions_of_def local_catalog_def foo_1_0_0_old_def foo_1_0_0_local_def)
  have h6: "foo_1_0_0_old \<notin> set (versions_of local_catalog ''foo'')"
    by (simp add: versions_of_def local_catalog_def foo_1_0_0_old_def foo_1_0_0_local_def)
  have h7: "foo_1_0_0_local \<in> set (versions_of local_catalog ''foo'')"
    by (simp add: versions_of_def local_catalog_def)
  from h3 h4 have h34: "(stat_not_exist example_env ''/old/index.yaml'' example_disk
        \<and> old_catalog = NewIndexFile (APIVersionV1 example_env) (time_Now example_env example_disk))
      \<or> (\<not> stat_not_exist example_env ''/old/index.yaml'' example_disk
        \<and> LoadIndexFile example_env ''/old/index.yaml'' example_disk = Inr old_catalog)"
    by simp
  note inst = merge_local_authoritative [OF h1 h2 h34 example_run_loaded]
  have p: "filepath_Join example_env ''/charts'' ''index.yaml'' = ''/charts/index.yaml''"
    by (simp add: example_env_simps)
  from inst h3 have a:
    "WriteJSONFile example_env (SortEntries example_env (Merge local_catalog old_catalog))
        ''/charts/index.yaml'' 420 example_disk
      = (None,
         example_disk\<lparr>files := (files example_disk)
           (''/charts/index.yaml'' \<mapsto>
              Encoded True (SortEntries example_env (Merge local_catalog old_catalog)))\<rparr>)"
    by (simp add: p)
  from inst h5 h6 have b: "foo_1_0_0_old \<notin> set (versions_of (Merge local_catalog old_catalog) ''foo'')"
    by blast
  from inst h7 have c: "foo_1_0_0_local \<in> set (versions_of (Merge local_catalog old_catalog) ''foo'')"
    by blast
  from h1 h2 h3 h4 a example_run_loaded h5 b c show ?thesis by blast
qed

text \<open>
  Claim C2, as stated, has every run with a missing merge target substitute an empty catalog
  and not fail. On the example disk \<^verbatim>\<open>/new/index.yaml\<close> is missing. The run into the
  read-only directory substitutes the empty catalog and then fails in the final write; the
  run on a directory that cannot be scanned fails before anything is substituted.
\<close>

theorem missing_target_can_fail_counterexample:
  "stat_not_exist example_env ''/new/index.yaml'' example_disk
   \<and> index example_env ''/ro'' [] ''/new/index.yaml'' False example_disk =
       (Some (PathError ''open'' ''/ro/index.yaml'' (Errno 13)),
        example_disk\<lparr>files := (files example_disk)
           (''/new/index.yaml'' \<mapsto> Encoded False (NewIndexFile ''v1'' 100))\<rparr>,
        [CallIndexDirectory ''/ro'' [], CallStat ''/new/index.yaml'', CallNewIndexFile,
         CallWriteFile (NewIndexFile ''v1'' 100) ''/new/index.yaml'' None,
         CallMerge local_catalog (NewIndexFile ''v1'' 100),
         CallSortEntries (Merge local_catalog (NewIndexFile ''v1'' 100)),
         CallWriteFile (SortEntries example_env (Merge local_catalog (NewIndexFile ''v1'' 100)))
           ''/ro/index.yaml'' (Some (PathError ''open'' ''/ro/index.yaml'' (Errno 13)))])
   \<and> index example_env ''/nowhere'' [] ''/new/index.yaml'' False example_disk =
       (Some (PathError ''open'' ''/nowhere'' (Errno 2)), example_disk,
        [CallIndexDirectory ''/nowhere'' []])"
  by (simp add: Let_def index_def writeIndexFile_def stat_not_exist_def example_env_simps
        example_disk_simps)

text \<open>
  Claim C2, amended. With the scan done (catalog \<open>i\<close>) and a merge target for which
  \<^verbatim>\<open>os.Stat\<close> returns \<^verbatim>\<open>fs.ErrNotExist\<close>, the run writes a new empty catalog at the target,
  merges \<open>i\<close> with it, sorts and makes the final write in the world the bootstrap write
  left; it returns what the final writer returns, so it fails only if that write fails. The
  catalog handed to the final writer, \<open>SortEntries i\<close>, at the same path and through the
  same writer, is the one of a run whose merge target \<open>m\<close> exists and loads as a catalog
  \<open>c\<close> without entries, whatever the tag and timestamp of \<open>c\<close>: merging with either leaves
  \<open>i\<close> as it is. Both results are given in full.
\<close>

theorem missing_target_like_empty_catalog:
  defines "new \<equiv> \<lambda>env w. NewIndexFile (APIVersionV1 env) (time_Now env w)"
  assumes "mergeTo \<noteq> []"
    and "stat_not_exist env mergeTo w"
    and "IndexDirectory env dir url w = Inr i"
    and "m \<noteq> []"
    and "\<not> stat_not_exist env m v"
    and "LoadIndexFile env m v = Inr c"
    and "entries c = Map.empty"
    and "IndexDirectory env dir url v = Inr i"
  shows "index env dir url mergeTo json w =
           (fst (writer env json (SortEntries env i) (filepath_Join env dir ''index.yaml'')
                   (snd (writer env json (new env w) mergeTo w))),
            snd (writer env json (SortEntries env i) (filepath_Join env dir ''index.yaml'')
                   (snd (writer env json (new env w) mergeTo w))),
            [CallIndexDirectory dir url, CallStat mergeTo, CallNewIndexFile,
             write_call json (new env w) mergeTo (fst (writer env json (new env w) mergeTo w)),
             CallMerge i (new env w), CallSortEntries i,
             write_call json (SortEntries env i) (filepath_Join env dir ''index.yaml'')
               (fst (writer env json (SortEntries env i) (filepath_Join env dir ''index.yaml'')
                       (snd (writer env json (new env w) mergeTo w))))])
       \<and> index env dir url m json v =
           (fst (writer env json (SortEntries env i) (filepath_Join env dir ''index.yaml'') v),
            snd (writer env json (SortEntries env i) (filepath_Join env dir ''index.yaml'') v),
            [CallIndexDirectory dir url, CallStat m, CallLoadIndexFile m,
             CallMerge i c, CallSortEntries i,
             write_call json (SortEntries env i) (filepath_Join env dir ''index.yaml'')
               (fst (writer env json (SortEntries env i)
                       (filepath_Join env dir ''index.yaml'') v))])
       \<and> Merge i (new env w) = i
       \<and> Merge i c = i"
proof -
  let ?out = "filepath_Join env dir ''index.yaml''"
  have mnew: "Merge i (new env w) = i"
    unfolding new_def by (rule Merge_NewIndexFile)
  have mold: "Merge i c = i"
    using assms(8) by (rule Merge_no_entries)
  obtain r w' cs where run: "index env dir url mergeTo json w = (r, w', cs)"
    using prod_cases3 by blast
  obtain r2 v' cs2 where run2: "index env dir url m json v = (r2, v', cs2)"
    using prod_cases3 by blast
  have a: "index env dir url mergeTo json w =
           (fst (writer env json (SortEntries env i) ?out
                   (snd (writer env json (new env w) mergeTo w))),
            snd (writer env json (SortEntries env i) ?out
                   (snd (writer env json (new env w) mergeTo w))),
            [CallIndexDirectory dir url, CallStat mergeTo, CallNewIndexFile,
             write_call json (new env w) mergeTo (fst (writer env json (new env w) mergeTo w)),
             CallMerge i (new env w), CallSortEntries i,
             write_call json (SortEntries env i) ?out
               (fst (writer env json (SortEntries env i) ?out
                       (snd (writer env json (new env w) mergeTo w))))])"
    using run
  proof (cases rule: index_cases)
    case (Bootstrapped j j2 r1 w1 cb cw)
    with assms(4) have eq: "j = i" "j2 = new env w" by (auto simp: new_def)
    from writeIndexFile_result [OF Bootstrapped(5)] writeIndexFile_result [OF Bootstrapped(6)]
      Bootstrapped(7) eq mnew run show ?thesis
      by (simp split: if_splits)
  qed (use assms(2,3,4) in auto)
  have b: "index env dir url m json v =
           (fst (writer env json (SortEntries env i) ?out v),
            snd (writer env json (SortEntries env i) ?out v),
            [CallIndexDirectory dir url, CallStat m, CallLoadIndexFile m,
             CallMerge i c, CallSortEntries i,
             write_call json (SortEntries env i) ?out
               (fst (writer env json (SortEntries env i) ?out v))])"
    using run2
  proof (cases rule: index_cases)
    case (Loaded j j2 cw)
    with assms(7,9) have eq: "j = i" "j2 = c" by auto
    from writeIndexFile_result [OF Loaded(5)] Loaded(6) eq mold run2 show ?thesis
      by (simp split: if_splits)
  qed (use assms(5,6,7,9) in auto)
  from a b mnew mold show ?thesis by blast
qed

text \<open>
  Both runs on the example disk: \<^verbatim>\<open>/new/index.yaml\<close> is missing, \<^verbatim>\<open>/empty/index.yaml\<close>
  holds a catalog without entries. The same catalog ends up at \<^verbatim>\<open>/charts/index.yaml\<close>.
\<close>

theorem missing_target_like_empty_catalog_witness:
  "''/new/index.yaml'' \<noteq> []
   \<and> stat_not_exist example_env ''/new/index.yaml'' example_disk
   \<and> IndexDirectory example_env ''/charts'' [] example_disk = Inr local_catalog
   \<and> ''/empty/index.yaml'' \<noteq> []
   \<and> \<not> stat_not_exist example_env ''/empty/index.yaml'' example_disk
   \<and> LoadIndexFile example_env ''/empty/index.yaml'' example_disk = Inr empty_catalog
   \<and> entries empty_catalog = Map.empty
   \<and> index example_env ''/charts'' [] ''/new/index.yaml'' False example_disk =
       (None,
        example_disk\<lparr>files := (files example_disk)
           (''/new/index.yaml'' \<mapsto> Encoded False (NewIndexFile ''v1'' 100),
            ''/charts/index.yaml'' \<mapsto> Encoded False (SortEntries example_env local_catalog))\<rparr>,
        [CallIndexDirectory ''/charts'' [], CallStat ''/new/index.yaml'', CallNewIndexFile,
         CallWriteFile (NewIndexFile ''v1'' 100) ''/new/index.yaml'' None,
         CallMerge local_catalog (NewIndexFile ''v1'' 100),
         CallSortEntries local_catalog,
         CallWriteFile (SortEntries example_env local_catalog) ''/charts/index.yaml'' None])
   \<and> index example_env ''/charts'' [] ''/empty/index.yaml'' False example_disk =
       (None,
        example_disk\<lparr>files := (files example_disk)
           (''/charts/index.yaml'' \<mapsto> Encoded False (SortEntries example_env local_catalog))\<rparr>,
        [CallIndexDirectory ''/charts'' [], CallStat ''/empty/index.yaml'',
         CallLoadIndexFile ''/empty/index.yaml'', CallMerge local_catalog empty_catalog,
         CallSortEntries local_catalog,
         CallWriteFile (SortEntries example_env local_catalog) ''/charts/index.yaml'' None])"
proof -
  have h1: "''/new/index.yaml'' \<noteq> []" by simp
  have h2: "stat_not_exist example_env ''/new/index.yaml'' example_disk"
    by (simp add: stat_not_exist_def example_env_simps example_disk_simps)
  have h3: "IndexDirectory example_env ''/charts'' [] example_disk = Inr local_catalog"
    by (simp add: example_env_simps example_disk_simps)
  have h5: "''/empty/index.yaml'' \<noteq> []" by simp
  have h6: "\<not> stat_not_exist example_env ''/empty/index.yaml'' example_disk"
    by (simp add: stat_not_exist_def example_env_simps example_disk_simps)
  have h7: "LoadIndexFile example_env ''/empty/index.yaml'' example_disk = Inr empty_catalog"
    by (simp add: example_env_simps example_disk_simps)
  have h8: "entries empty_catalog = Map.empty"
    by (simp add: empty_catalog_def)
  note inst = missing_target_like_empty_catalog [OF h1 h2 h3 h5 h6 h7 h8 h3, of False]
  from inst have a:
    "index example_env ''/charts'' [] ''/new/index.yaml'' False example_disk =
       (None,
        example_disk\<lparr>files := (files example_disk)
           (''/new/index.yaml'' \<mapsto> Encoded False (NewIndexFile ''v1'' 100),
            ''/charts/index.yaml'' \<mapsto> Encoded False (SortEntries example_env local_catalog))\<rparr>,
        [CallIndexDirectory ''/charts'' [], CallStat ''/new/index.yaml'', CallNewIndexFile,
         CallWriteFile (NewIndexFile ''v1'' 100) ''/new/index.yaml'' None,
         CallMerge local_catalog (NewIndexFile ''v1'' 100),
         CallSortEntries local_catalog,
         CallWriteFile (SortEntries example_env local_catalog) ''/charts/index.yaml'' None])"
    by (simp add: write_call_def example_env_simps example_disk_simps)
  from inst have b:
    "index example_env ''/charts'' [] ''/empty/index.yaml'' False example_disk =
       (None,
        example_disk\<lparr>files := (files example_disk)
           (''/charts/index.yaml'' \<mapsto> Encoded False (SortEntries example_env local_catalog))\<rparr>,
        [CallIndexDirectory ''/charts'' [], CallStat ''/empty/index.yaml'',
         CallLoadIndexFile ''/empty/index.yaml'', CallMerge local_catalog empty_catalog,
         CallSortEntries local_catalog,
         CallWriteFile (SortEntries example_env local_catalog) ''/charts/index.yaml'' None])"
    by (simp add: write_call_def example_env_simps example_disk_simps)
  from h1 h2 h3 h5 h6 h7 h8 a b show ?thesis by blast
qed

text \<open>
  Claim C3. With the scan done, a merge target that \<^verbatim>\<open>os.Stat\<close> does not report missing
  and a load of it that fails with \<open>err\<close>, the run returns the error \<^verbatim>\<open>fmt.Errorf\<close> builds
  from \<^verbatim>\<open>"merge failed: %w"\<close>: its message is the prefix followed by the message of
  \<open>err\<close>, and \<open>err\<close> is its cause. The run has made three calls, none of them a write, and
  leaves the world as it found it.
\<close>

theorem load_error_is_merge_failed:
  assumes "mergeTo \<noteq> []"
    and "IndexDirectory env dir url w = Inr i"
    and "\<not> stat_not_exist env mergeTo w"
    and "LoadIndexFile env mergeTo w = Inl err"
  shows "index env dir url mergeTo json w =
           (Some (fmt_Errorf_w ''merge failed: '' err), w,
            [CallIndexDirectory dir url, CallStat mergeTo, CallLoadIndexFile mergeTo])
       \<and> Error (fmt_Errorf_w ''merge failed: '' err) = ''merge failed: '' @ Error err
       \<and> Unwrap (fmt_Errorf_w ''merge failed: '' err) = Some err
       \<and> errors_Is (fmt_Errorf_w ''merge failed: '' err) err"
proof -
  have "errors_Is (fmt_Errorf_w ''merge failed: '' err) err"
    by (cases err) (simp_all add: fmt_Errorf_w_def)
  with index_load_failed [OF assms(2,1,3,4)] show ?thesis
    by (simp add: fmt_Errorf_w_def)
qed

text \<open>
  The corrupt file \<^verbatim>\<open>/bad/index.yaml\<close> of the example disk as the merge target.
\<close>

theorem load_error_is_merge_failed_witness:
  "''/bad/index.yaml'' \<noteq> []
   \<and> IndexDirectory example_env ''/charts'' [] example_disk = Inr local_catalog
   \<and> \<not> stat_not_exist example_env ''/bad/index.yaml'' example_disk
   \<and> LoadIndexFile example_env ''/bad/index.yaml'' example_disk
       = Inl (ErrorString ''no API version specified'')
   \<and> index example_env ''/charts'' [] ''/bad/index.yaml'' False example_disk =
       (Some (fmt_Errorf_w ''merge failed: '' (ErrorString ''no API version specified'')),
        example_disk,
        [CallIndexDirectory ''/charts'' [], CallStat ''/bad/index.yaml'',
         CallLoadIndexFile ''/bad/index.yaml''])
   \<and> Error (fmt_Errorf_w ''merge failed: '' (ErrorString ''no API version specified''))
       = ''merge failed: no API version specified''"
proof -
  have h1: "''/bad/index.yaml'' \<noteq> []" by simp
  have h2: "IndexDirectory example_env ''/charts'' [] example_disk = Inr local_catalog"
    by (simp add: example_env_simps example_disk_simps)
  have h3: "\<not> stat_not_exist example_env ''/bad/index.yaml'' example_disk"
    by (simp add: stat_not_exist_def example_env_simps example_disk_simps)
  have h4: "LoadIndexFile example_env ''/bad/index.yaml'' example_disk
              = Inl (ErrorString ''no API version specified'')"
    by (simp add: example_env_simps example_disk_simps)
  from load_error_is_merge_failed [OF h1 h2 h3 h4, of False] h1 h2 h3 h4
  show ?thesis by simp
qed

text \<open>
  Claim C4, as stated, has a run fail only by a scan error or a merge-load error. A run
  also fails when the final write fails: here the scan succeeds, no merge target is given,
  the output path is read-only, and the run returns the error of \<^verbatim>\<open>WriteFile\<close>.
\<close>

theorem final_write_failure_counterexample:
  "index example_env ''/ro'' [] [] False example_disk =
     (Some (PathError ''open'' ''/ro/index.yaml'' (Errno 13)), example_disk,
      [CallIndexDirectory ''/ro'' [], CallSortEntries local_catalog,
       CallWriteFile (SortEntries example_env local_catalog) ''/ro/index.yaml''
         (Some (PathError ''open'' ''/ro/index.yaml'' (Errno 13)))])
   \<and> IndexDirectory example_env ''/ro'' [] example_disk = Inr local_catalog"
  by (simp add: Let_def index_def writeIndexFile_def example_env_simps example_disk_simps)

text \<open>
  Claim C4, amended. Every run is of one of three kinds. A scan error or a merge-load error
  ends it: it returns that error (the load error wrapped), has made no write call and
  leaves the world unchanged. Otherwise its last call is the one write of the output index,
  at the output path, and the run returns what that call returned: \<^verbatim>\<open>nil\<close> when the file
  was written, the writer's error when it was not. The only other write call a run makes,
  before that one, is the write of the new empty catalog at the merge target, made only
  when a merge target is given and \<^verbatim>\<open>os.Stat\<close> reports it missing.
\<close>

theorem run_writes_output_or_nothing:
  assumes "index env dir url mergeTo json w = (r, w', cs)"
  shows "(\<exists>e. IndexDirectory env dir url w = Inl e \<and> r = Some e
            \<and> filter is_write cs = [] \<and> w' = w)
       \<or> (\<exists>i e. IndexDirectory env dir url w = Inr i \<and> mergeTo \<noteq> []
            \<and> \<not> stat_not_exist env mergeTo w \<and> LoadIndexFile env mergeTo w = Inl e
            \<and> r = Some (fmt_Errorf_w ''merge failed: '' e)
            \<and> filter is_write cs = [] \<and> w' = w)
       \<or> (\<exists>i' boot.
              filter is_write cs
                = boot @ [write_call json i' (filepath_Join env dir ''index.yaml'') r]
            \<and> last cs = write_call json i' (filepath_Join env dir ''index.yaml'') r
            \<and> (boot = []
               \<or> (\<exists>r1. mergeTo \<noteq> [] \<and> stat_not_exist env mergeTo w
                     \<and> boot = [write_call json
                                 (NewIndexFile (APIVersionV1 env) (time_Now env w)) mergeTo r1])))"
  using assms
proof (cases rule: index_cases)
  case (ScanFailed e)
  then show ?thesis by simp
next
  case (NoMerge i cw)
  then show ?thesis by simp
next
  case (LoadFailed i e)
  then show ?thesis by simp
next
  case (Loaded i i2 cw)
  then show ?thesis by simp
next
  case (Bootstrapped i i2 r1 w1 cb cw)
  then show ?thesis by simp
qed

text \<open>
  A run that writes the empty catalog at the missing merge target and then fails in the
  final write: these are its two write calls.
\<close>

theorem run_writes_output_or_nothing_witness:
  "index example_env ''/ro'' [] ''/new/index.yaml'' False example_disk =
     (Some (PathError ''open'' ''/ro/index.yaml'' (Errno 13)),
      example_disk\<lparr>files := (files example_disk)
         (''/new/index.yaml'' \<mapsto> Encoded False (NewIndexFile ''v1'' 100))\<rparr>,
      [CallIndexDirectory ''/ro'' [], CallStat ''/new/index.yaml'', CallNewIndexFile,
       CallWriteFile (NewIndexFile ''v1'' 100) ''/new/index.yaml'' None,
       CallMerge local_catalog (NewIndexFile ''v1'' 100),
       CallSortEntries (Merge local_catalog (NewIndexFile ''v1'' 100)),
       CallWriteFile (SortEntries example_env (Merge local_catalog (NewIndexFile ''v1'' 100)))
         ''/ro/index.yaml'' (Some (PathError ''open'' ''/ro/index.yaml'' (Errno 13)))])
   \<and> (\<exists>i' r1.
         filter is_write
           [CallIndexDirectory ''/ro'' [], CallStat ''/new/index.yaml'', CallNewIndexFile,
            CallWriteFile (NewIndexFile ''v1'' 100) ''/new/index.yaml'' None,
            CallMerge local_catalog (NewIndexFile ''v1'' 100),
            CallSortEntries (Merge local_catalog (NewIndexFile ''v1'' 100)),
            CallWriteFile (SortEntries example_env (Merge local_catalog (NewIndexFile ''v1'' 100)))
              ''/ro/index.yaml'' (Some (PathError ''open'' ''/ro/index.yaml'' (Errno 13)))]
         = [write_call False (NewIndexFile ''v1'' 100) ''/new/index.yaml'' r1,
            write_call False i' ''/ro/index.yaml''
              (Some (PathError ''open'' ''/ro/index.yaml'' (Errno 13)))])"
proof -
  note inst = run_writes_output_or_nothing [OF example_run_bootstrapped_write_failed]
  have scan: "IndexDirectory example_env ''/ro'' [] example_disk = Inr local_catalog"
    by (simp add: example_env_simps example_disk_simps)
  from inst scan show ?thesis
    by (simp add: example_run_bootstrapped_write_failed write_call_def)
qed

text \<open>
  Claim C5, as stated, has every error reach the caller unchanged and none discarded. The
  error of loading a merge target that is present does not reach the caller unchanged:
  \<^verbatim>\<open>index\<close> returns a new error that wraps it. And the error of the bootstrap write is
  discarded: with the missing, read-only merge target \<^verbatim>\<open>/ro/index.yaml\<close> the writer
  returns an error and the run returns \<^verbatim>\<open>nil\<close>.
\<close>

theorem load_wrapped_bootstrap_ignored_counterexample:
  "LoadIndexFile example_env ''/bad/index.yaml'' example_disk
     = Inl (ErrorString ''no API version specified'')
   \<and> fst (index example_env ''/charts'' [] ''/bad/index.yaml'' False example_disk)
     = Some (WrapError ''merge failed: no API version specified''
               (ErrorString ''no API version specified''))
   \<and> fst (index example_env ''/charts'' [] ''/bad/index.yaml'' False example_disk)
     \<noteq> Some (ErrorString ''no API version specified'')
   \<and> stat_not_exist example_env ''/ro/index.yaml'' example_disk
   \<and> WriteFile example_env (NewIndexFile ''v1'' 100) ''/ro/index.yaml'' 420 example_disk
     = (Some (PathError ''open'' ''/ro/index.yaml'' (Errno 13)), example_disk)
   \<and> fst (index example_env ''/charts'' [] ''/ro/index.yaml'' False example_disk) = None"
  by (simp add: example_run_load_failed example_run_bootstrap_failed stat_not_exist_def
        example_env_simps example_disk_simps)

text \<open>
  Claim C5, amended. Every run is one of five, given here with its whole result. A scan
  error is returned unchanged and ends the run after the one call. A load error of a merge
  target that \<^verbatim>\<open>os.Stat\<close> does not report missing is returned wrapped with the prefix
  \<^verbatim>\<open>merge failed: \<close>, stays reachable as the cause, and ends the run after the load. In
  the three other runs (no merge target; target loaded; target reported missing and
  bootstrapped) the run returns exactly what the final writer returned, its error unchanged
  or \<^verbatim>\<open>nil\<close>. The error of \<^verbatim>\<open>os.Stat\<close> only chooses between bootstrap and load, and the
  error \<open>r1\<close> of the bootstrap write is in the record of the calls and not in the result.
  In each run every call is made once: nothing is retried.
\<close>

theorem errors_reach_caller:
  defines "new \<equiv> \<lambda>env w. NewIndexFile (APIVersionV1 env) (time_Now env w)"
  assumes "index env dir url mergeTo json w = (r, w', cs)"
  shows "(\<exists>e. IndexDirectory env dir url w = Inl e \<and> r = Some e \<and> w' = w
            \<and> cs = [CallIndexDirectory dir url])
       \<or> (\<exists>i e. IndexDirectory env dir url w = Inr i \<and> mergeTo \<noteq> []
            \<and> \<not> stat_not_exist env mergeTo w \<and> LoadIndexFile env mergeTo w = Inl e
            \<and> r = Some (fmt_Errorf_w ''merge failed: '' e)
            \<and> Unwrap (fmt_Errorf_w ''merge failed: '' e) = Some e \<and> w' = w
            \<and> cs = [CallIndexDirectory dir url, CallStat mergeTo, CallLoadIndexFile mergeTo])
       \<or> (\<exists>i. IndexDirectory env dir url w = Inr i \<and> mergeTo = []
            \<and> (r, w') = writer env json (SortEntries env i)
                           (filepath_Join env dir ''index.yaml'') w
            \<and> cs = [CallIndexDirectory dir url, CallSortEntries i,
                    write_call json (SortEntries env i) (filepath_Join env dir ''index.yaml'') r])
       \<or> (\<exists>i i2. IndexDirectory env dir url w = Inr i \<and> mergeTo \<noteq> []
            \<and> \<not> stat_not_exist env mergeTo w \<and> LoadIndexFile env mergeTo w = Inr i2
            \<and> (r, w') = writer env json (SortEntries env (Merge i i2))
                           (filepath_Join env dir ''index.yaml'') w
            \<and> cs = [CallIndexDirectory dir url, CallStat mergeTo, CallLoadIndexFile mergeTo,
                    CallMerge i i2, CallSortEntries (Merge i i2),
                    write_call json (SortEntries env (Merge i i2))
                      (filepath_Join env dir ''index.yaml'') r])
       \<or> (\<exists>i r1 w1. IndexDirectory env dir url w = Inr i \<and> mergeTo \<noteq> []
            \<and> stat_not_exist env mergeTo w
            \<and> (r1, w1) = writer env json (new env w) mergeTo w
            \<and> (r, w') = writer env json (SortEntries env (Merge i (new env w)))
                           (filepath_Join env dir ''index.yaml'') w1
            \<and> cs = [CallIndexDirectory dir url, CallStat mergeTo, CallNewIndexFile,
                    write_call json (new env w) mergeTo r1,
                    CallMerge i (new env w), CallSortEntries (Merge i (new env w)),
                    write_call json (SortEntries env (Merge i (new env w)))
                      (filepath_Join env dir ''index.yaml'') r])"
  using assms(2)
proof (cases rule: index_cases)
  case (ScanFailed e)
  then show ?thesis by simp
next
  case (NoMerge i cw)
  from writeIndexFile_writer [OF NoMerge(3)] NoMerge(1,2,4) show ?thesis by simp
next
  case (LoadFailed i e)
  then show ?thesis by (simp add: fmt_Errorf_w_def)
next
  case (Loaded i i2 cw)
  from writeIndexFile_writer [OF Loaded(5)] Loaded(1,2,3,4,6) show ?thesis by simp
next
  case (Bootstrapped i i2 r1 w1 cb cw)
  from writeIndexFile_writer [OF Bootstrapped(5)] writeIndexFile_writer [OF Bootstrapped(6)]
    Bootstrapped(1,2,3,4,7)
  have "\<exists>i r1 w1. IndexDirectory env dir url w = Inr i \<and> mergeTo \<noteq> []
            \<and> stat_not_exist env mergeTo w
            \<and> (r1, w1) = writer env json (new env w) mergeTo w
            \<and> (r, w') = writer env json (SortEntries env (Merge i (new env w)))
                           (filepath_Join env dir ''index.yaml'') w1
            \<and> cs = [CallIndexDirectory dir url, CallStat mergeTo, CallNewIndexFile,
                    write_call json (new env w) mergeTo r1,
                    CallMerge i (new env w), CallSortEntries (Merge i (new env w)),
                    write_call json (SortEntries env (Merge i (new env w)))
                      (filepath_Join env dir ''index.yaml'') r]"
    unfolding new_def
    by (intro exI [of _ i] exI [of _ r1] exI [of _ w1]) simp
  then show ?thesis by blast
qed

text \<open>
  The run whose bootstrap write fails and whose final write succeeds.
\<close>

theorem errors_reach_caller_witness:
  "index example_env ''/charts'' [] ''/ro/index.yaml'' False example_disk =
     (None,
      example_disk\<lparr>files := (files example_disk)
         (''/charts/index.yaml'' \<mapsto>
            Encoded False
              (SortEntries example_env (Merge local_catalog (NewIndexFile ''v1'' 100))))\<rparr>,
      [CallIndexDirectory ''/charts'' [], CallStat ''/ro/index.yaml'', CallNewIndexFile,
       CallWriteFile (NewIndexFile ''v1'' 100) ''/ro/index.yaml''
         (Some (PathError ''open'' ''/ro/index.yaml'' (Errno 13))),
       CallMerge local_catalog (NewIndexFile ''v1'' 100),
       CallSortEntries (Merge local_catalog (NewIndexFile ''v1'' 100)),
       CallWriteFile (SortEntries example_env (Merge local_catalog (NewIndexFile ''v1'' 100)))
         ''/charts/index.yaml'' None])
   \<and> stat_not_exist example_env ''/ro/index.yaml'' example_disk
   \<and> (\<exists>w1. (Some (PathError ''open'' ''/ro/index.yaml'' (Errno 13)), w1)
             = WriteFile example_env (NewIndexFile ''v1'' 100) ''/ro/index.yaml'' 420 example_disk
          \<and> (None,
              example_disk\<lparr>files := (files example_disk)
                (''/charts/index.yaml'' \<mapsto>
                   Encoded False
                     (SortEntries example_env
                        (Merge local_catalog (NewIndexFile ''v1'' 100))))\<rparr>)
             = WriteFile example_env
                 (SortEntries example_env (Merge local_catalog (NewIndexFile ''v1'' 100)))
                 ''/charts/index.yaml'' 420 w1)"
proof -
  note inst = errors_reach_caller [OF example_run_bootstrap_failed]
  have scan: "IndexDirectory example_env ''/charts'' [] example_disk = Inr local_catalog"
    by (simp add: example_env_simps example_disk_simps)
  have st: "stat_not_exist example_env ''/ro/index.yaml'' example_disk"
    by (simp add: stat_not_exist_def example_env_simps example_disk_simps)
  have new: "NewIndexFile (APIVersionV1 example_env) (time_Now example_env example_disk)
               = NewIndexFile ''v1'' 100"
    by (simp add: example_env_simps example_disk_simps)
  have p: "filepath_Join example_env ''/charts'' ''index.yaml'' = ''/charts/index.yaml''"
    by (simp add: example_env_simps)
  from inst scan st have
    "\<exists>w1. (Some (PathError ''open'' ''/ro/index.yaml'' (Errno 13)), w1)
             = WriteFile example_env (NewIndexFile ''v1'' 100) ''/ro/index.yaml'' 420 example_disk
          \<and> (None,
              example_disk\<lparr>files := (files example_disk)
                (''/charts/index.yaml'' \<mapsto>
                   Encoded False
                     (SortEntries example_env
                        (Merge local_catalog (NewIndexFile ''v1'' 100))))\<rparr>)
             = WriteFile example_env
                 (SortEntries example_env (Merge local_catalog (NewIndexFile ''v1'' 100)))
                 ''/charts/index.yaml'' 420 w1"
    by (auto simp: new p write_call_def)
  with example_run_bootstrap_failed st show ?thesis by blast
qed

text \<open>
  Claim C6, as stated, has every run perform the merge exactly when a merge target is given.
  A run that the scan error ends performs no merge, no sort and no write, merge target or
  not.
\<close>

theorem scan_error_skips_merge_counterexample:
  "''/old/index.yaml'' \<noteq> []
   \<and> index example_env ''/nowhere'' [] ''/old/index.yaml'' False example_disk =
       (Some (PathError ''open'' ''/nowhere'' (Errno 2)), example_disk,
        [CallIndexDirectory ''/nowhere'' []])"
  by (simp add: example_run_scan_failed)

text \<open>
  Claim C6, amended. The calls of a run follow one fixed order: the scan (which also builds
  the catalog), the merge stage, the sort, the write. A scan error ends the run after the
  scan, a load error inside the merge stage. A run that neither ends makes every call of the
  order once: without a merge target the scan, the sort and the write; with one the scan,
  the merge stage (\<^verbatim>\<open>os.Stat\<close>, then the load, or the new empty catalog and its
  write, then \<open>Merge\<close>), the sort and the write. So in these runs the merge is performed
  exactly when a merge target is given, and the sort comes right before the final write in
  both cases.
\<close>

theorem steps_in_fixed_order:
  assumes "index env dir url mergeTo json w = (r, w', cs)"
  shows "(\<exists>e. IndexDirectory env dir url w = Inl e \<and> cs = [CallIndexDirectory dir url])
       \<or> (\<exists>i e. IndexDirectory env dir url w = Inr i \<and> mergeTo \<noteq> []
            \<and> \<not> stat_not_exist env mergeTo w \<and> LoadIndexFile env mergeTo w = Inl e
            \<and> cs = [CallIndexDirectory dir url, CallStat mergeTo, CallLoadIndexFile mergeTo])
       \<or> (\<exists>i. IndexDirectory env dir url w = Inr i \<and> mergeTo = []
            \<and> cs = [CallIndexDirectory dir url, CallSortEntries i,
                    write_call json (SortEntries env i) (filepath_Join env dir ''index.yaml'') r])
       \<or> (\<exists>i i2 pre. IndexDirectory env dir url w = Inr i \<and> mergeTo \<noteq> []
            \<and> (pre = [CallLoadIndexFile mergeTo]
               \<or> (\<exists>r1. pre = [CallNewIndexFile, write_call json i2 mergeTo r1]))
            \<and> cs = [CallIndexDirectory dir url, CallStat mergeTo] @ pre
                   @ [CallMerge i i2, CallSortEntries (Merge i i2),
                      write_call json (SortEntries env (Merge i i2))
                        (filepath_Join env dir ''index.yaml'') r])"
  using assms
proof (cases rule: index_cases)
  case (ScanFailed e)
  then show ?thesis by simp
next
  case (NoMerge i cw)
  then show ?thesis by simp
next
  case (LoadFailed i e)
  then show ?thesis by simp
next
  case (Loaded i i2 cw)
  then show ?thesis by simp
next
  case (Bootstrapped i i2 r1 w1 cb cw)
  then show ?thesis by simp
qed

text \<open>
  A run with a merge target that exists: scan, merge stage, sort, write.
\<close>

theorem steps_in_fixed_order_witness:
  "index example_env ''/charts'' [] ''/old/index.yaml'' True example_disk =
     (None,
      example_disk\<lparr>files := (files example_disk)
         (''/charts/index.yaml'' \<mapsto>
            Encoded True (SortEntries example_env (Merge local_catalog old_catalog)))\<rparr>,
      [CallIndexDirectory ''/charts'' [], CallStat ''/old/index.yaml'',
       CallLoadIndexFile ''/old/index.yaml'', CallMerge local_catalog old_catalog,
       CallSortEntries (Merge local_catalog old_catalog),
       CallWriteJSONFile (SortEntries example_env (Merge local_catalog old_catalog))
         ''/charts/index.yaml'' None])
   \<and> (\<exists>i i2. [CallIndexDirectory ''/charts'' [], CallStat ''/old/index.yaml'',
              CallLoadIndexFile ''/old/index.yaml'', CallMerge local_catalog old_catalog,
              CallSortEntries (Merge local_catalog old_catalog),
              CallWriteJSONFile (SortEntries example_env (Merge local_catalog old_catalog))
                ''/charts/index.yaml'' None]
            = [CallIndexDirectory ''/charts'' [], CallStat ''/old/index.yaml'',
               CallLoadIndexFile ''/old/index.yaml'', CallMerge i i2,
               CallSortEntries (Merge i i2),
               write_call True (SortEntries example_env (Merge i i2)) ''/charts/index.yaml'' None])"
proof -
  note inst = steps_in_fixed_order [OF example_run_loaded]
  from inst show ?thesis
    by (simp add: example_run_loaded write_call_def)
qed







text \<open>
  Claim C10. With the scan done and the merge target reported missing, the run makes two
  write calls and both go to the writer the flag selects. With the flag set, the new empty
  catalog is handed to \<^verbatim>\<open>WriteJSONFile\<close> at the merge target in the world the run found,
  and the sorted catalog to \<^verbatim>\<open>WriteJSONFile\<close> at the output path in the world the first
  write left; the run returns the error and the world of the second. With the flag unset
  both are \<^verbatim>\<open>WriteFile\<close>.
\<close>

theorem bootstrap_encoding_follows_json_flag:
  defines "new \<equiv> \<lambda>env w. NewIndexFile (APIVersionV1 env) (time_Now env w)"
  assumes "mergeTo \<noteq> []"
    and "IndexDirectory env dir url w = Inr i"
    and "stat_not_exist env mergeTo w"
    and "index env dir url mergeTo json w = (r, w', cs)"
  shows "\<exists>r1 w1.
           (if json
            then (r1, w1) = WriteJSONFile env (new env w) mergeTo 420 w
               \<and> (r, w') = WriteJSONFile env (SortEntries env (Merge i (new env w)))
                              (filepath_Join env dir ''index.yaml'') 420 w1
               \<and> filter is_write cs =
                   [CallWriteJSONFile (new env w) mergeTo r1,
                    CallWriteJSONFile (SortEntries env (Merge i (new env w)))
                      (filepath_Join env dir ''index.yaml'') r]
            else (r1, w1) = WriteFile env (new env w) mergeTo 420 w
               \<and> (r, w') = WriteFile env (SortEntries env (Merge i (new env w)))
                              (filepath_Join env dir ''index.yaml'') 420 w1
               \<and> filter is_write cs =
                   [CallWriteFile (new env w) mergeTo r1,
                    CallWriteFile (SortEntries env (Merge i (new env w)))
                      (filepath_Join env dir ''index.yaml'') r])"
  using assms(5)
proof (cases rule: index_cases)
  case (Bootstrapped j j2 r1 w1 cb cw)
  with assms(3) have eq: "j = i" "j2 = new env w" by (auto simp: new_def)
  from writeIndexFile_writer [OF Bootstrapped(5)] writeIndexFile_writer [OF Bootstrapped(6)]
    Bootstrapped(7) eq show ?thesis
    by (intro exI [of _ r1] exI [of _ w1]) (simp add: write_call_def)
qed (use assms(2,3,4) in auto)

text \<open>
  A run with the flag set and a missing merge target: both files are on the disk
  afterwards, in the JSON encoding.
\<close>

theorem bootstrap_encoding_follows_json_flag_witness:
  "''/new/index.json'' \<noteq> []
   \<and> IndexDirectory example_env ''/charts'' ''https://charts.example.com/'' example_disk
       = Inr local_catalog
   \<and> stat_not_exist example_env ''/new/index.json'' example_disk
   \<and> index example_env ''/charts'' ''https://charts.example.com/'' ''/new/index.json'' True
       example_disk =
       (None,
        example_disk\<lparr>files := (files example_disk)
           (''/new/index.json'' \<mapsto> Encoded True (NewIndexFile ''v1'' 100),
            ''/charts/index.yaml'' \<mapsto>
              Encoded True
                (SortEntries example_env (Merge local_catalog (NewIndexFile ''v1'' 100))))\<rparr>,
        [CallIndexDirectory ''/charts'' ''https://charts.example.com/'',
         CallStat ''/new/index.json'', CallNewIndexFile,
         CallWriteJSONFile (NewIndexFile ''v1'' 100) ''/new/index.json'' None,
         CallMerge local_catalog (NewIndexFile ''v1'' 100),
         CallSortEntries (Merge local_catalog (NewIndexFile ''v1'' 100)),
         CallWriteJSONFile (SortEntries example_env (Merge local_catalog (NewIndexFile ''v1'' 100)))
           ''/charts/index.yaml'' None])
   \<and> (\<exists>w1. (None, w1)
             = WriteJSONFile example_env (NewIndexFile ''v1'' 100) ''/new/index.json'' 420
                 example_disk
          \<and> (None,
              example_disk\<lparr>files := (files example_disk)
                (''/new/index.json'' \<mapsto> Encoded True (NewIndexFile ''v1'' 100),
                 ''/charts/index.yaml'' \<mapsto>
                   Encoded True
                     (SortEntries example_env
                        (Merge local_catalog (NewIndexFile ''v1'' 100))))\<rparr>)
             = WriteJSONFile example_env
                 (SortEntries example_env (Merge local_catalog (NewIndexFile ''v1'' 100)))
                 ''/charts/index.yaml'' 420 w1)"
proof -
  have h1: "''/new/index.json'' \<noteq> []" by simp
  have h2: "IndexDirectory example_env ''/charts'' ''https://charts.example.com/'' example_disk
       = Inr local_catalog"
    by (simp add: example_env_simps example_disk_simps)
  have h3: "stat_not_exist example_env ''/new/index.json'' example_disk"
    by (simp add: stat_not_exist_def example_env_simps example_disk_simps)
  have new: "NewIndexFile (APIVersionV1 example_env) (time_Now example_env example_disk)
               = NewIndexFile ''v1'' 100"
    by (simp add: example_env_simps example_disk_simps)
  have p: "filepath_Join example_env ''/charts'' ''index.yaml'' = ''/charts/index.yaml''"
    by (simp add: example_env_simps)
  note inst = bootstrap_encoding_follows_json_flag [OF h1 h2 h3 example_run_bootstrapped_json]
  from inst have
    "\<exists>w1. (None, w1)
             = WriteJSONFile example_env (NewIndexFile ''v1'' 100) ''/new/index.json'' 420
                 example_disk
          \<and> (None,
              example_disk\<lparr>files := (files example_disk)
                (''/new/index.json'' \<mapsto> Encoded True (NewIndexFile ''v1'' 100),
                 ''/charts/index.yaml'' \<mapsto>
                   Encoded True
                     (SortEntries example_env
                        (Merge local_catalog (NewIndexFile ''v1'' 100))))\<rparr>)
             = WriteJSONFile example_env
                 (SortEntries example_env (Merge local_catalog (NewIndexFile ''v1'' 100)))
                 ''/charts/index.yaml'' 420 w1"
    by (auto simp: new p)
  with h1 h2 h3 example_run_bootstrapped_json show ?thesis by blast
qed

end
